theory Spec2Isabelle
  imports Main "HOL-Library.Multiset"
begin

section \<open>The data model of \<^verbatim>\<open>tabletapapp/models.py\<close>\<close>

text \<open>
  Every Django model is a record whose first field is the primary key the database
  assigns. A field keeps the name it has in the source where that name is used by one
  model only; \<^verbatim>\<open>Restaurant_ID\<close>, which \<^verbatim>\<open>Menu\<close>, \<^verbatim>\<open>Table\<close>,
  \<^verbatim>\<open>Restaurant_Owner\<close> and \<^verbatim>\<open>Order\<close> all declare, carries the model as a prefix
  outside \<^verbatim>\<open>Order\<close>. A foreign key is the primary key of the row it points to.
  \<^verbatim>\<open>DecimalField(decimal_places=2)\<close> amounts are exact decimals; they are counted here
  in hundredths as integers, and \<^verbatim>\<open>IntegerField\<close> quantities are Python integers.
  The bounds that Django and the database put on a stored value (\<^verbatim>\<open>max_digits\<close>, the
  width of an integer column) are not part of the repository and not of this model, which
  speaks of values within them. A \<^verbatim>\<open>DateTimeField\<close> is a point on a discrete clock.
  The models \<^verbatim>\<open>Menu_Category\<close> and \<^verbatim>\<open>User\<close> are referenced by the views
  modelled here through their keys only; their tables are left out.
\<close>

type_synonym pk = nat
type_synonym money = int
type_synonym datetime = nat

record Owner =
  Owner_pk :: pk
  Owner_user :: pk

record Restaurant =
  Restaurant_pk :: pk
  Restaurant_Name :: string
  Table_Amount :: int

record Restaurant_Owner =
  Link_Owner_ID :: pk
  Link_Restaurant_ID :: pk
  Link_Created_At :: datetime

record Menu =
  Menu_pk :: pk
  Menu_Name :: string
  Menu_Restaurant_ID :: pk

record Menu_Item =
  Menu_Item_pk :: pk
  Item_Name :: string
  Description :: string
  Price :: money
  Category_ID :: pk

record Table =
  Table_pk :: pk
  Table_Restaurant_ID :: pk

record Order =
  Order_pk :: pk
  Table_ID :: "pk option"
  Restaurant_ID :: pk
  Created_At :: datetime
  Updated_At :: datetime
  Completed_Status :: bool
  Customer_Submitted :: bool
  Total_Price :: money

record Order_Item =
  Order_Item_pk :: pk
  Order_ID :: pk
  Item_ID :: pk
  Quantity :: int

text \<open>
  The database: one list of rows per table, in the order of a scan of the table. None of
  the models declares a \<^verbatim>\<open>Meta.ordering\<close>, so a query without \<^verbatim>\<open>order_by\<close>
  gets its rows in an order that the database picks. Where a statement below depends on
  that order (the queryset \<^verbatim>\<open>orders\<close> of \<^verbatim>\<open>view_order\<close>), the order is a
  parameter of the model.
\<close>

record database =
  Owners :: "Owner list"
  Restaurants :: "Restaurant list"
  Restaurant_Owners :: "Restaurant_Owner list"
  Menus :: "Menu list"
  Menu_Items :: "Menu_Item list"
  Tables :: "Table list"
  Orders :: "Order list"
  Order_Items :: "Order_Item list"

section \<open>Exceptions, requests and responses\<close>

text \<open>
  The views catch one exception only (\<^verbatim>\<open>Order_Item.DoesNotExist\<close> in
  \<^verbatim>\<open>add_order_item\<close>); every other one leaves the view uncaught. A view returns
  \<open>Inl e\<close> for an exception that leaves it and \<open>Inr\<close> for a response.
\<close>

datatype error =
    DoesNotExist
  | MultipleObjectsReturned
  | UnboundLocalError
  | AttributeError
  | IndexError

datatype http_method = GET | POST

text \<open>
  What a view reads from the request: \<^verbatim>\<open>request.method\<close> (the field
  \<open>request_method\<close>), the value stored under \<^verbatim>\<open>'order_id'\<close> in the session, the
  logged-in user, and the clock that \<^verbatim>\<open>auto_now\<close> and \<^verbatim>\<open>auto_now_add\<close> read. \<^verbatim>\<open>OrderItemForm\<close> is a
  \<^verbatim>\<open>ModelForm\<close> over the single field \<^verbatim>\<open>Quantity = models.IntegerField()\<close>, declared
  with no validator; the parsing of the posted text is Django's. The request therefore
  carries the outcome of \<^verbatim>\<open>form.is_valid()\<close>: \<open>Some q\<close> when the posted text is
  the integer \<open>q\<close>, \<open>None\<close> when it is not an integer (or is missing).
\<close>

record request =
  request_method :: http_method
  session_order_id :: "pk option"
  POST_Quantity :: "int option"
  user :: "pk option"
  now :: datetime

text \<open>
  The form in the context of \<^verbatim>\<open>add_order_item.html\<close>: \<^verbatim>\<open>OrderItemForm()\<close> of a
  \<^verbatim>\<open>GET\<close>, or \<^verbatim>\<open>OrderItemForm(request.POST)\<close> with its cleaned quantity, which is
  rendered only when it is invalid.
\<close>

datatype form = Unbound_Form | Bound_Form "int option"

record cart_line =
  Line_Item_Name :: string
  Line_Quantity :: int
  Line_Price :: money

datatype response =
    Redirect_customer_menu pk pk pk
  | Redirect_view_order pk
  | Redirect_login
  | Render_add_order_item form Menu_Item pk pk pk
  | Render_view_cart "cart_line list" pk pk pk money Order
  | Render_view_order "cart_line list" "Order option" "Order list"

section \<open>The object manager\<close>

definition bindE :: "error + 'a \<Rightarrow> ('a \<Rightarrow> error + 'b) \<Rightarrow> error + 'b" where
  "bindE m f = (case m of Inl e \<Rightarrow> Inl e | Inr x \<Rightarrow> f x)"

text \<open>\<^verbatim>\<open>Model.objects.get(...)\<close>: the one row that matches, or an exception.\<close>

definition objects_get :: "('a \<Rightarrow> bool) \<Rightarrow> 'a list \<Rightarrow> error + 'a" where
  "objects_get P rows =
     (case filter P rows of
        [] \<Rightarrow> Inl DoesNotExist
      | [x] \<Rightarrow> Inr x
      | _ \<Rightarrow> Inl MultipleObjectsReturned)"

text \<open>The primary key of a new row is larger than every key in the table.\<close>

definition fresh_pk :: "pk list \<Rightarrow> pk" where
  "fresh_pk ids = Suc (fold max ids 0)"

text \<open>
  \<^verbatim>\<open>instance.save()\<close> writes every field of the instance to the row with its primary
  key, and inserts the row when the table has none. \<^verbatim>\<open>Updated_At\<close> is
  \<^verbatim>\<open>auto_now\<close>: each save of an order sets it to the clock.
\<close>

definition save_Order :: "datetime \<Rightarrow> Order \<Rightarrow> Order list \<Rightarrow> Order list" where
  "save_Order t x rows =
     (if Order_pk x \<in> set (map Order_pk rows)
      then map (\<lambda>r. if Order_pk r = Order_pk x then x\<lparr>Updated_At := t\<rparr> else r) rows
      else rows @ [x\<lparr>Updated_At := t\<rparr>])"

definition save_Order_Item :: "Order_Item \<Rightarrow> Order_Item list \<Rightarrow> Order_Item list" where
  "save_Order_Item x rows =
     (if Order_Item_pk x \<in> set (map Order_Item_pk rows)
      then map (\<lambda>r. if Order_Item_pk r = Order_Item_pk x then x else r) rows
      else rows @ [x])"

text \<open>
  \<^verbatim>\<open>order_id = request.session.get('order_id')\<close> followed by \<^verbatim>\<open>if order_id:\<close>: the
  branch is taken for a stored identifier other than \<open>0\<close>.
\<close>

fun truthy_pk :: "pk option \<Rightarrow> pk option" where
  "truthy_pk None = None"
| "truthy_pk (Some n) = (if n = 0 then None else Some n)"

section \<open>\<^verbatim>\<open>add_order_item\<close> (views.py, lines 436 to 476)\<close>

text \<open>
  The view returns the response, the session's \<^verbatim>\<open>'order_id'\<close> after the call and the
  database after the call. The order is looked up or created before the method of the
  request is examined, so a \<^verbatim>\<open>GET\<close> on a session with no order creates one too.
  In the branch that finds an existing line, \<^verbatim>\<open>existed_item.Quantity\<close> has already
  been incremented when the total is updated. \<^verbatim>\<open>menu.Restaurant_ID\<close> is used for its
  key only (\<^verbatim>\<open>Restaurant_ID=menu.Restaurant_ID\<close>, \<^verbatim>\<open>menu.Restaurant_ID.id\<close>), the key
  the menu row stores.
\<close>

text \<open>
  Lines 445 to 450: the order bound to the session, or a new order for the table and the
  restaurant of the menu, bound to the session. The result is the order, the session's
  \<^verbatim>\<open>'order_id'\<close> and the database.
\<close>

definition resolve_order ::
  "request \<Rightarrow> pk \<Rightarrow> Menu \<Rightarrow> database \<Rightarrow> error + (Order \<times> pk option \<times> database)" where
  "resolve_order request table_id menu db =
     (case truthy_pk (session_order_id request) of
        Some order_id \<Rightarrow>
          bindE (objects_get (\<lambda>r. Order_pk r = order_id) (Orders db)) (\<lambda>order.
            Inr (order, session_order_id request, db))
      | None \<Rightarrow>
          bindE (objects_get (\<lambda>t. Table_pk t = table_id) (Tables db)) (\<lambda>table.
            let order = \<lparr>Order_pk = fresh_pk (map Order_pk (Orders db)),
                         Table_ID = Some (Table_pk table),
                         Restaurant_ID = Menu_Restaurant_ID menu,
                         Created_At = now request, Updated_At = now request,
                         Completed_Status = False, Customer_Submitted = False,
                         Total_Price = 0\<rparr>
            in Inr (order, Some (Order_pk order), db\<lparr>Orders := Orders db @ [order]\<rparr>)))"

text \<open>
  Lines 455 to 465, for the cleaned quantity of a valid form: the \<^verbatim>\<open>try\<close> that
  merges into the existing line, the \<^verbatim>\<open>except Order_Item.DoesNotExist\<close> that
  creates the line, and \<^verbatim>\<open>order.save()\<close>. Any other exception of the lookup is
  not caught.
\<close>

definition merge_order_item ::
  "datetime \<Rightarrow> int \<Rightarrow> Menu_Item \<Rightarrow> Order \<Rightarrow> database \<Rightarrow> error + database" where
  "merge_order_item t quantity item order db1 =
     (case objects_get (\<lambda>oi. Order_ID oi = Order_pk order \<and> Item_ID oi = Menu_Item_pk item)
             (Order_Items db1) of
        Inr existed_item \<Rightarrow>
          let existed_item = existed_item\<lparr>Quantity := Quantity existed_item + quantity\<rparr>;
              db2 = db1\<lparr>Order_Items := save_Order_Item existed_item (Order_Items db1)\<rparr>;
              order = order\<lparr>Total_Price := Total_Price order + Quantity existed_item * Price item\<rparr>
          in Inr (db2\<lparr>Orders := save_Order t order (Orders db2)\<rparr>)
      | Inl DoesNotExist \<Rightarrow>
          let order_item = \<lparr>Order_Item_pk = fresh_pk (map Order_Item_pk (Order_Items db1)),
                            Order_ID = Order_pk order,
                            Item_ID = Menu_Item_pk item,
                            Quantity = quantity\<rparr>;
              db2 = db1\<lparr>Order_Items := save_Order_Item order_item (Order_Items db1)\<rparr>;
              order = order\<lparr>Total_Price := Total_Price order + Quantity order_item * Price item\<rparr>
          in Inr (db2\<lparr>Orders := save_Order t order (Orders db2)\<rparr>)
      | Inl e \<Rightarrow> Inl e)"

definition add_order_item ::
  "request \<Rightarrow> pk \<Rightarrow> pk \<Rightarrow> pk \<Rightarrow> database \<Rightarrow> error + (response \<times> pk option \<times> database)" where
  "add_order_item request table_id menu_id item_id db =
     bindE (objects_get (\<lambda>i. Menu_Item_pk i = item_id) (Menu_Items db)) (\<lambda>item.
     bindE (objects_get (\<lambda>m. Menu_pk m = menu_id) (Menus db)) (\<lambda>menu.
     bindE (resolve_order request table_id menu db) (\<lambda>(order, session, db1).
       case request_method request of
         POST \<Rightarrow>
           (case POST_Quantity request of
              Some quantity \<Rightarrow>
                bindE (merge_order_item (now request) quantity item order db1) (\<lambda>db2.
                  Inr (Redirect_customer_menu table_id menu_id 0, session, db2))
            | None \<Rightarrow>
                Inr (Render_add_order_item (Bound_Form None)
                       item table_id (Menu_Restaurant_ID menu) menu_id, session, db1))
       | GET \<Rightarrow>
           Inr (Render_add_order_item Unbound_Form
                  item table_id (Menu_Restaurant_ID menu) menu_id, session, db1))))"

section \<open>\<^verbatim>\<open>view_cart\<close> (views.py, lines 479 to 516)\<close>

text \<open>
  The loop shared by \<^verbatim>\<open>view_cart\<close> and \<^verbatim>\<open>view_order\<close>: one dictionary per line,
  priced at the item's current price. \<^verbatim>\<open>item.Item_ID\<close> follows the foreign key.
  The lines are taken in the order of the table; the statements below use the loop on
  single lines, or only ask whether it raises.
\<close>

fun cart_lines :: "database \<Rightarrow> Order_Item list \<Rightarrow> error + cart_line list" where
  "cart_lines db [] = Inr []"
| "cart_lines db (item # order_items) =
     bindE (objects_get (\<lambda>i. Menu_Item_pk i = Item_ID item) (Menu_Items db)) (\<lambda>menu_item.
     bindE (cart_lines db order_items) (\<lambda>items.
       Inr (\<lparr>Line_Item_Name = Item_Name menu_item,
             Line_Quantity = Quantity item,
             Line_Price = Price menu_item * Quantity item\<rparr> # items)))"

text \<open>
  The local variable \<^verbatim>\<open>order\<close> is assigned inside \<^verbatim>\<open>if order_id:\<close> only. It is an
  option here, \<open>None\<close> while unbound, and reading it unbound raises
  \<^verbatim>\<open>UnboundLocalError\<close>. \<^verbatim>\<open>menus[0]\<close> on an empty queryset raises
  \<^verbatim>\<open>IndexError\<close>.
\<close>

definition view_cart ::
  "request \<Rightarrow> pk \<Rightarrow> pk \<Rightarrow> pk \<Rightarrow> database \<Rightarrow> error + (response \<times> database)" where
  "view_cart request table_id restaurant_id menu_id db =
     bindE
       (case truthy_pk (session_order_id request) of
          Some order_id \<Rightarrow>
            bindE (objects_get (\<lambda>r. Order_pk r = order_id) (Orders db)) (\<lambda>order.
            bindE (cart_lines db (filter (\<lambda>oi. Order_ID oi = Order_pk order) (Order_Items db))) (\<lambda>items.
              Inr (Some order, Total_Price order, items)))
        | None \<Rightarrow> Inr (None, 0, []))
       (\<lambda>(order, order_total_price, items).
          case request_method request of
            POST \<Rightarrow>
              (case order of
                 None \<Rightarrow> Inl UnboundLocalError
               | Some order \<Rightarrow>
                   Inr (Redirect_customer_menu table_id menu_id 0,
                        db\<lparr>Orders := save_Order (now request) (order\<lparr>Customer_Submitted := True\<rparr>) (Orders db)\<rparr>))
          | GET \<Rightarrow>
              bindE
                (if menu_id = 0
                 then bindE (objects_get (\<lambda>r. Restaurant_pk r = restaurant_id) (Restaurants db)) (\<lambda>restaurant.
                        case filter (\<lambda>m. Menu_Restaurant_ID m = Restaurant_pk restaurant) (Menus db) of
                          [] \<Rightarrow> Inl IndexError
                        | menu # _ \<Rightarrow> Inr (Menu_pk menu))
                 else Inr menu_id)
                (\<lambda>menu_id.
                   case order of
                     None \<Rightarrow> Inl UnboundLocalError
                   | Some order \<Rightarrow>
                       Inr (Render_view_cart items table_id restaurant_id menu_id order_total_price order, db)))"

section \<open>\<^verbatim>\<open>view_order\<close> (views.py, lines 519 to 553)\<close>

text \<open>
  Lines 527 to 529: the owner of the logged-in user, the restaurants linked to that owner
  through \<^verbatim>\<open>Restaurant_Owner\<close>, and the queryset \<^verbatim>\<open>orders\<close>. The queryset has no
  \<^verbatim>\<open>order_by\<close>: the code fixes which rows it holds and leaves their order to the
  database. That choice is the parameter \<open>row_order\<close>, which rearranges the rows that
  match; a database permutes them and neither drops nor repeats one.
\<close>

definition owner_restaurants :: "database \<Rightarrow> Owner \<Rightarrow> Restaurant list" where
  "owner_restaurants db owner =
     filter (\<lambda>r. (Owner_pk owner, Restaurant_pk r)
                   \<in> set (map (\<lambda>l. (Link_Owner_ID l, Link_Restaurant_ID l)) (Restaurant_Owners db)))
            (Restaurants db)"

definition pending_orders ::
  "(Order list \<Rightarrow> Order list) \<Rightarrow> pk \<Rightarrow> database \<Rightarrow> error + Order list" where
  "pending_orders row_order u db =
     bindE (objects_get (\<lambda>w. Owner_user w = u) (Owners db)) (\<lambda>owner.
       let restaurants = owner_restaurants db owner
       in Inr (row_order
                 (filter (\<lambda>r. Restaurant_ID r \<in> set (map Restaurant_pk restaurants)
                              \<and> Customer_Submitted r \<and> \<not> Completed_Status r)
                         (Orders db))))"

text \<open>
  One choice a database makes: it answers through the index on the foreign key
  \<^verbatim>\<open>Restaurant_ID\<close> and yields the rows restaurant by restaurant, those of one
  restaurant by primary key.
\<close>

definition index_scan :: "Order list \<Rightarrow> Order list" where
  "index_scan rows = sort_key Restaurant_ID (sort_key Order_pk rows)"

text \<open>
  \<^verbatim>\<open>@login_required\<close> redirects an anonymous request. \<^verbatim>\<open>order = []\<close> is the
  placeholder of the view when the queryset is empty (\<open>None\<close> here); assigning the
  attribute \<^verbatim>\<open>Completed_Status\<close> on that list raises \<^verbatim>\<open>AttributeError\<close>. With a
  non-empty queryset the order is fetched by \<^verbatim>\<open>Order.objects.get(id=order_id)\<close>, from
  the whole table. \<^verbatim>\<open>orders[0]\<close> is the first row in the order of the database.
\<close>

definition view_order ::
  "(Order list \<Rightarrow> Order list) \<Rightarrow> request \<Rightarrow> pk \<Rightarrow> database \<Rightarrow> error + (response \<times> database)" where
  "view_order row_order request order_id db =
     (case user request of
        None \<Rightarrow> Inr (Redirect_login, db)
      | Some u \<Rightarrow>
          bindE (pending_orders row_order u db) (\<lambda>orders.
          bindE
            (case orders of
               [] \<Rightarrow> Inr (None, [])
             | first # _ \<Rightarrow>
                 let order_id = (if order_id = 0 then Order_pk first else order_id)
                 in bindE (objects_get (\<lambda>r. Order_pk r = order_id) (Orders db)) (\<lambda>order.
                    bindE (cart_lines db (filter (\<lambda>oi. Order_ID oi = Order_pk order) (Order_Items db))) (\<lambda>items.
                      Inr (Some order, items))))
            (\<lambda>(order, items).
               case request_method request of
                 POST \<Rightarrow>
                   (case order of
                      None \<Rightarrow> Inl AttributeError
                    | Some order \<Rightarrow>
                        Inr (Redirect_view_order 0,
                             db\<lparr>Orders := save_Order (now request) (order\<lparr>Completed_Status := True\<rparr>) (Orders db)\<rparr>))
               | GET \<Rightarrow> Inr (Render_view_order items order orders, db))))"

section \<open>Sequences of calls and the vocabulary of the specification\<close>






text \<open>The line items of an order for one menu item, and their quantity.\<close>

definition lines_of :: "database \<Rightarrow> pk \<Rightarrow> pk \<Rightarrow> Order_Item list" where
  "lines_of db order_id item_id =
     filter (\<lambda>oi. Order_ID oi = order_id \<and> Item_ID oi = item_id) (Order_Items db)"

definition quantity_of :: "database \<Rightarrow> pk \<Rightarrow> pk \<Rightarrow> int" where
  "quantity_of db order_id item_id = sum_list (map Quantity (lines_of db order_id item_id))"





text \<open>
  The three states of the specification, read off the two flags. The fourth value names
  the combination the specification excludes: completed and not submitted.
\<close>

datatype lifecycle = OPEN | SUBMITTED | COMPLETED | COMPLETED_NOT_SUBMITTED

definition order_state :: "Order \<Rightarrow> lifecycle" where
  "order_state r =
     (if Customer_Submitted r
      then (if Completed_Status r then COMPLETED else SUBMITTED)
      else (if Completed_Status r then COMPLETED_NOT_SUBMITTED else OPEN))"

section \<open>Example data\<close>

text \<open>
  A catalogue with two restaurants. User 7 is the owner of the first restaurant only.
  Item A costs 5.00 and item B 3.50, as in the scenario of the specification.
\<close>

definition example_db :: database where
  "example_db =
     \<lparr>Owners = [\<lparr>Owner_pk = 1, Owner_user = 7\<rparr>],
      Restaurants = [\<lparr>Restaurant_pk = 1, Restaurant_Name = ''North'', Table_Amount = 2\<rparr>,
                     \<lparr>Restaurant_pk = 2, Restaurant_Name = ''South'', Table_Amount = 1\<rparr>],
      Restaurant_Owners = [\<lparr>Link_Owner_ID = 1, Link_Restaurant_ID = 1, Link_Created_At = 0\<rparr>],
      Menus = [\<lparr>Menu_pk = 1, Menu_Name = ''Lunch'', Menu_Restaurant_ID = 1\<rparr>,
               \<lparr>Menu_pk = 2, Menu_Name = ''Dinner'', Menu_Restaurant_ID = 2\<rparr>],
      Menu_Items = [\<lparr>Menu_Item_pk = 1, Item_Name = ''A'', Description = [], Price = 500, Category_ID = 1\<rparr>,
                    \<lparr>Menu_Item_pk = 2, Item_Name = ''B'', Description = [], Price = 350, Category_ID = 1\<rparr>],
      Tables = [\<lparr>Table_pk = 1, Table_Restaurant_ID = 1\<rparr>, \<lparr>Table_pk = 2, Table_Restaurant_ID = 2\<rparr>],
      Orders = [],
      Order_Items = []\<rparr>"

definition customer :: "http_method \<Rightarrow> pk option \<Rightarrow> int option \<Rightarrow> datetime \<Rightarrow> request" where
  "customer m s q t = \<lparr>request_method = m, session_order_id = s, POST_Quantity = q, user = None, now = t\<rparr>"

definition owner_request :: "http_method \<Rightarrow> pk \<Rightarrow> datetime \<Rightarrow> request" where
  "owner_request m u t = \<lparr>request_method = m, session_order_id = None, POST_Quantity = None, user = Some u, now = t\<rparr>"

definition an_order :: "pk \<Rightarrow> pk \<Rightarrow> datetime \<Rightarrow> datetime \<Rightarrow> bool \<Rightarrow> bool \<Rightarrow> money \<Rightarrow> Order" where
  "an_order k r c u done sub amount =
     \<lparr>Order_pk = k, Table_ID = Some r, Restaurant_ID = r, Created_At = c, Updated_At = u,
      Completed_Status = done, Customer_Submitted = sub, Total_Price = amount\<rparr>"

definition a_line :: "pk \<Rightarrow> pk \<Rightarrow> pk \<Rightarrow> int \<Rightarrow> Order_Item" where
  "a_line k order_id item_id q = \<lparr>Order_Item_pk = k, Order_ID = order_id, Item_ID = item_id, Quantity = q\<rparr>"

text \<open>
  The first restaurant with three orders: order 1 is completed, order 2 is submitted and
  waits for the kitchen, order 3 belongs to the second restaurant and is still open.
\<close>

definition kitchen_db :: database where
  "kitchen_db = example_db
     \<lparr>Orders := [an_order 1 1 10 12 True True 1000,
                 an_order 2 1 20 21 False True 350,
                 an_order 3 2 30 30 False False 500],
      Order_Items := [a_line 1 1 1 2, a_line 2 2 2 1, a_line 3 3 1 1]\<rparr>"

definition with_orders :: "Order list \<Rightarrow> Order_Item list \<Rightarrow> database" where
  "with_orders orders order_items = example_db\<lparr>Orders := orders, Order_Items := order_items\<rparr>"

text \<open>
  User 7 owns both restaurants, and four submitted orders wait: orders 1 and 3 of the
  second restaurant, orders 2 and 4 of the first, created in the order of their keys.
\<close>

definition chain_db :: database where
  "chain_db = example_db
     \<lparr>Restaurant_Owners := [\<lparr>Link_Owner_ID = 1, Link_Restaurant_ID = 1, Link_Created_At = 0\<rparr>,
                            \<lparr>Link_Owner_ID = 1, Link_Restaurant_ID = 2, Link_Created_At = 0\<rparr>],
      Orders := [an_order 1 2 10 11 False True 500,
                 an_order 2 1 20 21 False True 350,
                 an_order 3 2 30 31 False True 500,
                 an_order 4 1 40 41 False True 350]\<rparr>"



section \<open>Evaluation rules\<close>

lemmas model_defs =
  add_order_item_def resolve_order_def merge_order_item_def view_cart_def view_order_def pending_orders_def
  index_scan_def owner_restaurants_def
  objects_get_def bindE_def fresh_pk_def save_Order_def save_Order_Item_def Let_def

lemmas example_defs =
  example_db_def kitchen_db_def chain_db_def with_orders_def customer_def owner_request_def
  an_order_def a_line_def

section \<open>Facts about the object manager\<close>

lemma bindE_Inl [simp]: "bindE (Inl e) f = Inl e"
  by (simp add: bindE_def)

lemma bindE_Inr [simp]: "bindE (Inr x) f = f x"
  by (simp add: bindE_def)

lemma objects_get_Inr: "objects_get P rows = Inr x \<longleftrightarrow> filter P rows = [x]"
  by (simp add: objects_get_def split: list.splits)





text \<open>Saving a fetched order.\<close>

lemma filter_pk_single_all:
  assumes "filter (\<lambda>r. Order_pk r = k) rows = [y]" and "r \<in> set rows" and "Order_pk r = k"
  shows "r = y"
proof -
  from assms(2,3) have "r \<in> set (filter (\<lambda>r. Order_pk r = k) rows)" by simp
  with assms(1) show ?thesis by simp
qed

lemma save_Order_fetched:
  assumes "filter (\<lambda>r. Order_pk r = k) rows = [y]" and "Order_pk x = k"
  shows "save_Order t x rows = map (\<lambda>r. if Order_pk r = k then x\<lparr>Updated_At := t\<rparr> else r) rows"
proof -
  have "y \<in> set (filter (\<lambda>r. Order_pk r = k) rows)" using assms(1) by simp
  then have "k \<in> set (map Order_pk rows)" by auto
  then show ?thesis using assms(2) by (simp add: save_Order_def)
qed

lemma filter_map_update_same:
  assumes "filter (\<lambda>r. Order_pk r = k) rows = [y]" and "Order_pk x = k"
  shows "filter (\<lambda>r. Order_pk r = k) (map (\<lambda>r. if Order_pk r = k then x else r) rows) = [x]"
  using assms
proof (induction rows arbitrary: y)
  case Nil
  then show ?case by simp
next
  case (Cons r rows)
  show ?case
  proof (cases "Order_pk r = k")
    case True
    with Cons.prems have rest: "filter (\<lambda>r. Order_pk r = k) rows = []" by simp
    then have "\<forall>r \<in> set rows. Order_pk r \<noteq> k" by (simp add: filter_empty_conv)
    then have "map (\<lambda>r. if Order_pk r = k then x else r) rows = rows" 
      by (simp add: map_idI)
    with True rest Cons.prems show ?thesis by simp
  next
    case False
    with Cons show ?thesis by simp
  qed
qed

lemma view_order_POST:
  assumes "user request = Some u" and "request_method request = POST"
    and "pending_orders row_order u db = Inr (p # ps)"
    and "objects_get (\<lambda>r. Order_pk r = (if order_id = 0 then Order_pk p else order_id)) (Orders db) = Inr order"
    and "cart_lines db (filter (\<lambda>oi. Order_ID oi = Order_pk order) (Order_Items db)) = Inr items"
  shows "view_order row_order request order_id db =
           Inr (Redirect_view_order 0,
                db\<lparr>Orders := save_Order (now request) (order\<lparr>Completed_Status := True\<rparr>) (Orders db)\<rparr>)"
  using assms by (simp add: view_order_def Let_def)

lemma fetched_pk: "objects_get (\<lambda>r. Order_pk r = k) rows = Inr order \<Longrightarrow> Order_pk order = k"
proof -
  assume "objects_get (\<lambda>r. Order_pk r = k) rows = Inr order"
  then have "filter (\<lambda>r. Order_pk r = k) rows = [order]" by (simp add: objects_get_Inr)
  then have "order \<in> set (filter (\<lambda>r. Order_pk r = k) rows)" by simp
  then show ?thesis by simp
qed

lemma objects_get_after_save:
  assumes "objects_get (\<lambda>r. Order_pk r = k) rows = Inr y" and "Order_pk x = k"
  shows "objects_get (\<lambda>r. Order_pk r = k) (save_Order t x rows) = Inr (x\<lparr>Updated_At := t\<rparr>)"
proof -
  from assms(1) have f: "filter (\<lambda>r. Order_pk r = k) rows = [y]" by (simp add: objects_get_Inr)
  have "Order_pk (x\<lparr>Updated_At := t\<rparr>) = k" using assms(2) by simp
  from filter_map_update_same [OF f this] save_Order_fetched [OF f assms(2)]
  show ?thesis by (simp add: objects_get_Inr)
qed

section \<open>Facts about line items\<close>

lemma lines_of_Orders_update [simp]: "lines_of (db\<lparr>Orders := os\<rparr>) k j = lines_of db k j"
  by (simp add: lines_of_def)

lemma quantity_of_Orders_update [simp]: "quantity_of (db\<lparr>Orders := os\<rparr>) k j = quantity_of db k j"
  by (simp add: quantity_of_def)











lemma bindE_eq_Inr: "bindE m f = Inr y \<longleftrightarrow> (\<exists>x. m = Inr x \<and> f x = Inr y)"
  by (cases m) simp_all












section \<open>The running total\<close>

text \<open>
  Claim C1: after every \<^verbatim>\<open>add_item\<close> the running total of the order is the sum over
  its lines of unit price times quantity, and a repeated add of an item raises the total
  by the requested quantity times the unit price.

  The code at the scenario of the specification: item A (5.00) is added with quantity 2
  to a new session, and the total is 10.00. It is added again with quantity 1: the line
  has quantity 3, and the stored total is 25.00, because the merging branch adds the
  price of the whole line (3 times 5.00) and not of the requested quantity. The cart
  then shows one line of 15.00 under a total of 25.00.
\<close>

theorem repeated_add_total_diverges:
  "add_order_item (customer POST None (Some 2) 10) 1 1 1 example_db
     = Inr (Redirect_customer_menu 1 1 0, Some 1,
            with_orders [an_order 1 1 10 10 False False 1000] [a_line 1 1 1 2])
   \<and> add_order_item (customer POST (Some 1) (Some 1) 11) 1 1 1
        (with_orders [an_order 1 1 10 10 False False 1000] [a_line 1 1 1 2])
     = Inr (Redirect_customer_menu 1 1 0, Some 1,
            with_orders [an_order 1 1 10 11 False False 2500] [a_line 1 1 1 3])
   \<and> view_cart (customer GET (Some 1) None 12) 1 1 1
        (with_orders [an_order 1 1 10 11 False False 2500] [a_line 1 1 1 3])
     = Inr (Render_view_cart [\<lparr>Line_Item_Name = ''A'', Line_Quantity = 3, Line_Price = 1500\<rparr>]
              1 1 1 2500 (an_order 1 1 10 11 False False 2500),
            with_orders [an_order 1 1 10 11 False False 2500] [a_line 1 1 1 3])"
  by (simp add: model_defs example_defs)

section \<open>Line items\<close>






text \<open>
  Claim C9, as stated: a non-positive quantity fails with \<^verbatim>\<open>InvalidQuantity\<close> and
  changes neither lines nor total. Counterexample: the form accepts the integer \<open>-2\<close>;
  on a new session the view answers with the redirect and stores a line of quantity
  \<open>-2\<close> under a total of \<open>-10.00\<close>.
\<close>

theorem negative_quantity_accepted:
  "add_order_item (customer POST None (Some (- 2)) 40) 1 1 1 example_db
     = Inr (Redirect_customer_menu 1 1 0, Some 1,
            with_orders [an_order 1 1 40 40 False False (- 1000)] [a_line 1 1 1 (- 2)])"
  by (simp add: model_defs example_defs)

text \<open>
  Claim C9, amended: a posted quantity that is not an integer makes the form invalid.
  Where the item and the menu exist and the order of the session is found or created, the
  view then answers with the page of the form, bound to the rejected input, and raises
  nothing; no line item is touched, and the database is the one before the call, or the
  one before the call with the new order of the session, whose total is \<open>0\<close>. An
  integer quantity is accepted whatever its sign.
\<close>

theorem invalid_quantity_rerenders_form:
  assumes "request_method request = POST" and "POST_Quantity request = None"
    and "objects_get (\<lambda>i. Menu_Item_pk i = item_id) (Menu_Items db) = Inr item"
    and "objects_get (\<lambda>m. Menu_pk m = menu_id) (Menus db) = Inr menu"
    and "resolve_order request table_id menu db = Inr (order, session', db1)"
  shows "add_order_item request table_id menu_id item_id db
           = Inr (Render_add_order_item (Bound_Form None) item table_id (Menu_Restaurant_ID menu) menu_id,
                  session', db1)
         \<and> Order_Items db1 = Order_Items db
         \<and> (db1 = db
            \<or> db1 = db\<lparr>Orders := Orders db @ [order]\<rparr> \<and> Total_Price order = 0
               \<and> truthy_pk (session_order_id request) = None)"
proof -
  have run: "add_order_item request table_id menu_id item_id db
           = Inr (Render_add_order_item (Bound_Form None) item table_id (Menu_Restaurant_ID menu) menu_id,
                  session', db1)"
    using assms by (simp add: add_order_item_def)
  have "Order_Items db1 = Order_Items db
         \<and> (db1 = db
            \<or> db1 = db\<lparr>Orders := Orders db @ [order]\<rparr> \<and> Total_Price order = 0
               \<and> truthy_pk (session_order_id request) = None)"
  proof (cases "truthy_pk (session_order_id request)")
    case (Some k)
    with assms(5) show ?thesis by (auto simp: resolve_order_def bindE_eq_Inr)
  next
    case None
    with assms(5) show ?thesis by (auto simp: resolve_order_def bindE_eq_Inr Let_def)
  qed
  with run show ?thesis by simp
qed

theorem invalid_quantity_rerenders_form_witness:
  "add_order_item (customer POST (Some 2) None 40) 1 1 1 kitchen_db
     = Inr (Render_add_order_item (Bound_Form None)
              \<lparr>Menu_Item_pk = 1, Item_Name = ''A'', Description = [], Price = 500, Category_ID = 1\<rparr>
              1 1 1, Some 2, kitchen_db)"
proof -
  let ?request = "customer POST (Some 2) None 40"
  let ?menu = "\<lparr>Menu_pk = 1, Menu_Name = ''Lunch'', Menu_Restaurant_ID = 1\<rparr>"
  have "request_method ?request = POST" "POST_Quantity ?request = None"
    by (simp_all add: customer_def)
  moreover have "objects_get (\<lambda>i. Menu_Item_pk i = 1) (Menu_Items kitchen_db)
                   = Inr \<lparr>Menu_Item_pk = 1, Item_Name = ''A'', Description = [], Price = 500, Category_ID = 1\<rparr>"
    by (simp add: model_defs example_defs)
  moreover have "objects_get (\<lambda>m. Menu_pk m = 1) (Menus kitchen_db) = Inr ?menu"
    by (simp add: model_defs example_defs)
  moreover have "resolve_order ?request 1 ?menu kitchen_db
                   = Inr (an_order 2 1 20 21 False True 350, Some 2, kitchen_db)"
    by (simp add: model_defs example_defs)
  ultimately have "add_order_item ?request 1 1 1 kitchen_db
           = Inr (Render_add_order_item (Bound_Form None)
                    \<lparr>Menu_Item_pk = 1, Item_Name = ''A'', Description = [], Price = 500, Category_ID = 1\<rparr>
                    1 (Menu_Restaurant_ID ?menu) 1,
                  Some 2, kitchen_db)
         \<and> Order_Items kitchen_db = Order_Items kitchen_db
         \<and> (kitchen_db = kitchen_db
            \<or> kitchen_db = kitchen_db\<lparr>Orders := Orders kitchen_db @ [an_order 2 1 20 21 False True 350]\<rparr>
               \<and> Total_Price (an_order 2 1 20 21 False True 350) = 0
               \<and> truthy_pk (session_order_id ?request) = None)"
    by (rule invalid_quantity_rerenders_form)
  then show ?thesis by simp
qed

section \<open>The cart of a session without an order\<close>

text \<open>
  Claim C3: \<^verbatim>\<open>view_cart\<close> on a session with no bound order fails with a reported
  \<^verbatim>\<open>NoActiveOrder\<close>, not a crash.

  The code on such a session, for either method and any menu other than \<open>0\<close>: the view
  reads the local variable \<^verbatim>\<open>order\<close>, which was never assigned, and the
  \<^verbatim>\<open>UnboundLocalError\<close> leaves the view uncaught.
\<close>

theorem view_cart_without_order_raises:
  "view_cart (request\<lparr>session_order_id := None\<rparr>) table_id restaurant_id (Suc menu_id) db
     = Inl UnboundLocalError"
  by (simp add: view_cart_def bindE_def split: http_method.split)

section \<open>Completed implies submitted\<close>

text \<open>
  Claim C5: in every reachable state a completed order is a submitted one.

  The code on four requests, from a database with no order. A first customer adds item B
  and submits: order 1 of the first restaurant is pending. A second customer adds item A
  at a table of the second restaurant: order 2 is open. The owner of the first restaurant
  posts the completion with the explicit identifier 2: order 2 is now completed and was
  never submitted.
\<close>

theorem open_order_completed_without_submission:
  "add_order_item (customer POST None (Some 1) 10) 1 1 2 example_db
     = Inr (Redirect_customer_menu 1 1 0, Some 1,
            with_orders [an_order 1 1 10 10 False False 350] [a_line 1 1 2 1])
   \<and> view_cart (customer POST (Some 1) None 11) 1 1 1
        (with_orders [an_order 1 1 10 10 False False 350] [a_line 1 1 2 1])
     = Inr (Redirect_customer_menu 1 1 0,
            with_orders [an_order 1 1 10 11 False True 350] [a_line 1 1 2 1])
   \<and> add_order_item (customer POST None (Some 1) 12) 2 2 1
        (with_orders [an_order 1 1 10 11 False True 350] [a_line 1 1 2 1])
     = Inr (Redirect_customer_menu 2 2 0, Some 2,
            with_orders [an_order 1 1 10 11 False True 350, an_order 2 2 12 12 False False 500]
                        [a_line 1 1 2 1, a_line 2 2 1 1])
   \<and> view_order index_scan (owner_request POST 7 13) 2
        (with_orders [an_order 1 1 10 11 False True 350, an_order 2 2 12 12 False False 500]
                     [a_line 1 1 2 1, a_line 2 2 1 1])
     = Inr (Redirect_view_order 0,
            with_orders [an_order 1 1 10 11 False True 350, an_order 2 2 12 13 True False 500]
                        [a_line 1 1 2 1, a_line 2 2 1 1])
   \<and> order_state (an_order 2 2 12 13 True False 500) = COMPLETED_NOT_SUBMITTED"
  by (simp add: model_defs example_defs order_state_def)

section \<open>Completion by the owner\<close>

text \<open>
  Claim C4: \<^verbatim>\<open>owner_complete\<close> on an order that is not \<open>SUBMITTED\<close> (still
  \<open>OPEN\<close>, or already \<open>COMPLETED\<close>) fails with \<^verbatim>\<open>InvalidTransition\<close> and
  leaves the order as it is; on a \<open>SUBMITTED\<close> order it succeeds, and one completion
  only takes effect.

  The code in three cases, for the owner of the first restaurant. First, order 1 of that
  restaurant is pending and order 2 is still \<open>OPEN\<close>: the \<^verbatim>\<open>POST\<close> with the
  identifier 2 answers with the redirect, and order 2 is completed without ever being
  submitted. Second, order 2 of the kitchen is pending and order 1 is already
  \<open>COMPLETED\<close>: the \<^verbatim>\<open>POST\<close> with the identifier 1 answers with the redirect as
  well. Third, the \<^verbatim>\<open>POST\<close> with the identifier 2 completes the last pending order of
  the kitchen; the same \<^verbatim>\<open>POST\<close> again finds the queryset empty, and the
  \<^verbatim>\<open>AttributeError\<close> of the assignment to the placeholder list leaves the view.
\<close>

theorem owner_complete_has_no_state_check:
  "order_state (an_order 2 1 20 20 False False 350) = OPEN
   \<and> view_order index_scan (owner_request POST 7 40) 2
        (with_orders [an_order 1 1 10 12 False True 1000, an_order 2 1 20 20 False False 350]
                     [a_line 1 1 1 2, a_line 2 2 2 1])
     = Inr (Redirect_view_order 0,
            with_orders [an_order 1 1 10 12 False True 1000, an_order 2 1 20 40 True False 350]
                        [a_line 1 1 1 2, a_line 2 2 2 1])
   \<and> order_state (an_order 1 1 10 12 True True 1000) = COMPLETED
   \<and> view_order index_scan (owner_request POST 7 40) 1 kitchen_db
     = Inr (Redirect_view_order 0,
            with_orders [an_order 1 1 10 40 True True 1000,
                         an_order 2 1 20 21 False True 350,
                         an_order 3 2 30 30 False False 500]
                        [a_line 1 1 1 2, a_line 2 2 2 1, a_line 3 3 1 1])
   \<and> view_order index_scan (owner_request POST 7 40) 2 kitchen_db
     = Inr (Redirect_view_order 0,
            with_orders [an_order 1 1 10 12 True True 1000,
                         an_order 2 1 20 40 True True 350,
                         an_order 3 2 30 30 False False 500]
                        [a_line 1 1 1 2, a_line 2 2 2 1, a_line 3 3 1 1])
   \<and> view_order index_scan (owner_request POST 7 41) 2
        (with_orders [an_order 1 1 10 12 True True 1000,
                      an_order 2 1 20 40 True True 350,
                      an_order 3 2 30 30 False False 500]
                     [a_line 1 1 1 2, a_line 2 2 2 1, a_line 3 3 1 1])
     = Inl AttributeError"
  by (simp add: model_defs example_defs order_state_def)

text \<open>
  Claim C10: for a logged-in owner with at least one pending order in their own
  restaurants, a \<^verbatim>\<open>POST\<close> with the explicit identifier of any existing order (whose
  lines point to existing menu items) marks that order completed. No hypothesis mentions
  the restaurant of the order or its flags: the view checks neither.
\<close>

theorem complete_any_order_by_id:
  assumes "user request = Some u" and "request_method request = POST"
    and "pending_orders row_order u db = Inr (p # ps)"
    and "order_id \<noteq> 0"
    and "objects_get (\<lambda>r. Order_pk r = order_id) (Orders db) = Inr order"
    and "cart_lines db (filter (\<lambda>oi. Order_ID oi = order_id) (Order_Items db)) = Inr items"
  shows "\<exists>db'. view_order row_order request order_id db = Inr (Redirect_view_order 0, db')
           \<and> objects_get (\<lambda>r. Order_pk r = order_id) (Orders db')
               = Inr (order\<lparr>Completed_Status := True, Updated_At := now request\<rparr>)"
proof -
  have pk: "Order_pk order = order_id" using assms(5) by (rule fetched_pk)
  have sel: "objects_get (\<lambda>r. Order_pk r = (if order_id = 0 then Order_pk p else order_id)) (Orders db) = Inr order"
    using assms(4,5) by simp
  have lines: "cart_lines db (filter (\<lambda>oi. Order_ID oi = Order_pk order) (Order_Items db)) = Inr items"
    using assms(6) pk by simp
  have run: "view_order row_order request order_id db =
           Inr (Redirect_view_order 0,
                db\<lparr>Orders := save_Order (now request) (order\<lparr>Completed_Status := True\<rparr>) (Orders db)\<rparr>)"
    by (rule view_order_POST [OF assms(1,2,3) sel lines])
  have "objects_get (\<lambda>r. Order_pk r = order_id)
          (save_Order (now request) (order\<lparr>Completed_Status := True\<rparr>) (Orders db))
        = Inr (order\<lparr>Completed_Status := True, Updated_At := now request\<rparr>)"
    using objects_get_after_save [OF assms(5), of "order\<lparr>Completed_Status := True\<rparr>" "now request"] pk
    by simp
  with run show ?thesis by simp
qed

theorem complete_any_order_by_id_witness:
  "\<exists>db'. view_order index_scan (owner_request POST 7 40) 3 kitchen_db = Inr (Redirect_view_order 0, db')
           \<and> objects_get (\<lambda>r. Order_pk r = 3) (Orders db')
               = Inr (an_order 3 2 30 40 True False 500)"
proof -
  have "user (owner_request POST 7 40) = Some 7" "request_method (owner_request POST 7 40) = POST"
    by (simp_all add: owner_request_def)
  moreover have "pending_orders index_scan 7 kitchen_db = Inr (an_order 2 1 20 21 False True 350 # [])"
    by (simp add: model_defs example_defs)
  moreover have "(3::nat) \<noteq> 0" by simp
  moreover have "objects_get (\<lambda>r. Order_pk r = 3) (Orders kitchen_db) = Inr (an_order 3 2 30 30 False False 500)"
    by (simp add: model_defs example_defs)
  moreover have "cart_lines kitchen_db (filter (\<lambda>oi. Order_ID oi = 3) (Order_Items kitchen_db))
                   = Inr [\<lparr>Line_Item_Name = ''A'', Line_Quantity = 1, Line_Price = 500\<rparr>]"
    by (simp add: model_defs example_defs)
  ultimately have "\<exists>db'. view_order index_scan (owner_request POST 7 40) 3 kitchen_db = Inr (Redirect_view_order 0, db')
           \<and> objects_get (\<lambda>r. Order_pk r = 3) (Orders db')
               = Inr ((an_order 3 2 30 30 False False 500)\<lparr>Completed_Status := True, Updated_At := now (owner_request POST 7 40)\<rparr>)"
    by (rule complete_any_order_by_id)
  then show ?thesis by (simp add: an_order_def owner_request_def)
qed

section \<open>Submission\<close>

text \<open>
  Claim C7: submitting on a session whose order is already \<open>SUBMITTED\<close> or
  \<open>COMPLETED\<close> raises no error and changes no state: the view answers with its
  redirect, every order keeps its lifecycle state, and the database differs from the one
  before in the \<^verbatim>\<open>Updated_At\<close> of the saved order only. The order is submitted
  afterwards, so the same holds for every further submit.
\<close>

theorem submit_idempotent:
  assumes "request_method request = POST"
    and "truthy_pk (session_order_id request) = Some order_id"
    and "objects_get (\<lambda>r. Order_pk r = order_id) (Orders db) = Inr order"
    and "order_state order = SUBMITTED \<or> order_state order = COMPLETED"
    and "cart_lines db (filter (\<lambda>oi. Order_ID oi = order_id) (Order_Items db)) = Inr items"
  shows "\<exists>db'. view_cart request table_id restaurant_id menu_id db
                  = Inr (Redirect_customer_menu table_id menu_id 0, db')
           \<and> db' = db\<lparr>Orders := map (\<lambda>r. if Order_pk r = order_id then r\<lparr>Updated_At := now request\<rparr> else r)
                                     (Orders db)\<rparr>
           \<and> map order_state (Orders db') = map order_state (Orders db)
           \<and> objects_get (\<lambda>r. Order_pk r = order_id) (Orders db') = Inr (order\<lparr>Updated_At := now request\<rparr>)"
proof -
  let ?t = "now request"
  have pk: "Order_pk order = order_id" using assms(3) by (rule fetched_pk)
  have f: "filter (\<lambda>r. Order_pk r = order_id) (Orders db) = [order]"
    using assms(3) by (simp add: objects_get_Inr)
  have sub: "Customer_Submitted order"
    using assms(4) by (auto simp: order_state_def split: if_splits)
  then have same: "order\<lparr>Customer_Submitted := True\<rparr> = order" by simp
  have run: "view_cart request table_id restaurant_id menu_id db
               = Inr (Redirect_customer_menu table_id menu_id 0,
                      db\<lparr>Orders := save_Order ?t order (Orders db)\<rparr>)"
    using assms(1,2,3,5) pk same by (simp add: view_cart_def)
  have "save_Order ?t order (Orders db)
          = map (\<lambda>r. if Order_pk r = order_id then order\<lparr>Updated_At := ?t\<rparr> else r) (Orders db)"
    by (rule save_Order_fetched [OF f pk])
  also have "\<dots> = map (\<lambda>r. if Order_pk r = order_id then r\<lparr>Updated_At := ?t\<rparr> else r) (Orders db)"
  proof (rule map_cong [OF refl])
    fix r assume "r \<in> set (Orders db)"
    then show "(if Order_pk r = order_id then order\<lparr>Updated_At := ?t\<rparr> else r)
                 = (if Order_pk r = order_id then r\<lparr>Updated_At := ?t\<rparr> else r)"
      using filter_pk_single_all [OF f, of r] by simp
  qed
  finally have saved: "save_Order ?t order (Orders db)
          = map (\<lambda>r. if Order_pk r = order_id then r\<lparr>Updated_At := ?t\<rparr> else r) (Orders db)" .
  have states: "map order_state (map (\<lambda>r. if Order_pk r = order_id then r\<lparr>Updated_At := ?t\<rparr> else r) (Orders db))
                  = map order_state (Orders db)"
  proof -
    have "order_state (if Order_pk r = order_id then r\<lparr>Updated_At := ?t\<rparr> else r) = order_state r" for r
      by (simp add: order_state_def)
    then show ?thesis by (simp add: comp_def)
  qed
  have got: "objects_get (\<lambda>r. Order_pk r = order_id) (save_Order ?t order (Orders db)) = Inr (order\<lparr>Updated_At := ?t\<rparr>)"
    by (rule objects_get_after_save [OF assms(3) pk])
  show ?thesis using run saved states got by simp
qed

theorem submit_idempotent_witness:
  "\<exists>db'. view_cart (customer POST (Some 2) None 40) 1 1 1 kitchen_db
                  = Inr (Redirect_customer_menu 1 1 0, db')
           \<and> map order_state (Orders db') = [COMPLETED, SUBMITTED, OPEN]
           \<and> map order_state (Orders kitchen_db) = [COMPLETED, SUBMITTED, OPEN]"
proof -
  have "request_method (customer POST (Some 2) None 40) = POST"
    and "truthy_pk (session_order_id (customer POST (Some 2) None 40)) = Some 2"
    by (simp_all add: customer_def)
  moreover have "objects_get (\<lambda>r. Order_pk r = 2) (Orders kitchen_db) = Inr (an_order 2 1 20 21 False True 350)"
    by (simp add: model_defs example_defs)
  moreover have "order_state (an_order 2 1 20 21 False True 350) = SUBMITTED
                 \<or> order_state (an_order 2 1 20 21 False True 350) = COMPLETED"
    by (simp add: order_state_def an_order_def)
  moreover have "cart_lines kitchen_db (filter (\<lambda>oi. Order_ID oi = 2) (Order_Items kitchen_db))
                   = Inr [\<lparr>Line_Item_Name = ''B'', Line_Quantity = 1, Line_Price = 350\<rparr>]"
    by (simp add: model_defs example_defs)
  ultimately have "\<exists>db'. view_cart (customer POST (Some 2) None 40) 1 1 1 kitchen_db
                  = Inr (Redirect_customer_menu 1 1 0, db')
           \<and> db' = kitchen_db\<lparr>Orders := map (\<lambda>r. if Order_pk r = 2 then r\<lparr>Updated_At := now (customer POST (Some 2) None 40)\<rparr> else r)
                                     (Orders kitchen_db)\<rparr>
           \<and> map order_state (Orders db') = map order_state (Orders kitchen_db)
           \<and> objects_get (\<lambda>r. Order_pk r = 2) (Orders db')
               = Inr ((an_order 2 1 20 21 False True 350)\<lparr>Updated_At := now (customer POST (Some 2) None 40)\<rparr>)"
    by (rule submit_idempotent)
  moreover have "map order_state (Orders kitchen_db) = [COMPLETED, SUBMITTED, OPEN]"
    by (simp add: example_defs order_state_def)
  ultimately show ?thesis by auto
qed

section \<open>The pending orders of an owner\<close>

text \<open>
  Claim C8, as stated: the pending orders are returned earliest-created first.
  Counterexample: the queryset of line 529 has no \<^verbatim>\<open>order_by\<close>. User 7 owns both
  restaurants and four orders wait, created in the order of their keys. A database that
  answers through the index on \<^verbatim>\<open>Restaurant_ID\<close> yields orders 2 and 4 of the first
  restaurant before orders 1 and 3 of the second: the creation times of the list are
  20, 40, 10, 30.
\<close>

theorem pending_orders_not_by_creation_time:
  "pending_orders index_scan 7 chain_db
     = Inr [an_order 2 1 20 21 False True 350, an_order 4 1 40 41 False True 350,
            an_order 1 2 10 11 False True 500, an_order 3 2 30 31 False True 500]
   \<and> \<not> sorted (map Created_At
                 [an_order 2 1 20 21 False True 350, an_order 4 1 40 41 False True 350,
                  an_order 1 2 10 11 False True 500, an_order 3 2 30 31 False True 500])"
  by (simp add: model_defs example_defs)

text \<open>
  Claim C8, amended: for a user who is an owner, and whatever order the database picks
  for the rows, the view's queryset holds exactly the orders of the restaurants linked to
  that owner that are submitted and not completed, each as often as the table of orders
  holds it. Nothing is said of the order of the list.
\<close>

theorem pending_orders_exact:
  assumes "objects_get (\<lambda>w. Owner_user w = u) (Owners db) = Inr owner"
    and "\<And>rows. mset (row_order rows) = mset rows"
  shows "\<exists>orders. pending_orders row_order u db = Inr orders
           \<and> set orders = {r \<in> set (Orders db).
                 (\<exists>l \<in> set (Restaurant_Owners db). \<exists>x \<in> set (Restaurants db).
                     Link_Owner_ID l = Owner_pk owner \<and> Link_Restaurant_ID l = Restaurant_pk x
                     \<and> Restaurant_pk x = Restaurant_ID r)
                 \<and> Customer_Submitted r \<and> \<not> Completed_Status r}
           \<and> mset orders = mset (filter (\<lambda>r. r \<in> set orders) (Orders db))"
proof -
  let ?P = "\<lambda>r. Restaurant_ID r \<in> set (map Restaurant_pk (owner_restaurants db owner))
                  \<and> Customer_Submitted r \<and> \<not> Completed_Status r"
  let ?orders = "row_order (filter ?P (Orders db))"
  have run: "pending_orders row_order u db = Inr ?orders"
    using assms(1) by (simp add: pending_orders_def)
  have perm: "mset ?orders = mset (filter ?P (Orders db))"
    by (rule assms(2))
  then have same_set: "set ?orders = set (filter ?P (Orders db))"
    by (rule mset_eq_setD)
  have auth: "Restaurant_ID r \<in> set (map Restaurant_pk (owner_restaurants db owner))
              \<longleftrightarrow> (\<exists>l \<in> set (Restaurant_Owners db). \<exists>x \<in> set (Restaurants db).
                     Link_Owner_ID l = Owner_pk owner \<and> Link_Restaurant_ID l = Restaurant_pk x
                     \<and> Restaurant_pk x = Restaurant_ID r)" for r
  proof
    assume "Restaurant_ID r \<in> set (map Restaurant_pk (owner_restaurants db owner))"
    then obtain x where x: "x \<in> set (Restaurants db)" "Restaurant_pk x = Restaurant_ID r"
      and "(Owner_pk owner, Restaurant_pk x)
             \<in> set (map (\<lambda>l. (Link_Owner_ID l, Link_Restaurant_ID l)) (Restaurant_Owners db))"
      by (auto simp: owner_restaurants_def)
    then obtain l where "l \<in> set (Restaurant_Owners db)"
      "Link_Owner_ID l = Owner_pk owner" "Link_Restaurant_ID l = Restaurant_pk x"
      by auto
    with x show "\<exists>l \<in> set (Restaurant_Owners db). \<exists>x \<in> set (Restaurants db).
                     Link_Owner_ID l = Owner_pk owner \<and> Link_Restaurant_ID l = Restaurant_pk x
                     \<and> Restaurant_pk x = Restaurant_ID r"
      by blast
  next
    assume "\<exists>l \<in> set (Restaurant_Owners db). \<exists>x \<in> set (Restaurants db).
                     Link_Owner_ID l = Owner_pk owner \<and> Link_Restaurant_ID l = Restaurant_pk x
                     \<and> Restaurant_pk x = Restaurant_ID r"
    then obtain l x where l: "l \<in> set (Restaurant_Owners db)" and x: "x \<in> set (Restaurants db)"
      and eqs: "Link_Owner_ID l = Owner_pk owner" "Link_Restaurant_ID l = Restaurant_pk x"
               "Restaurant_pk x = Restaurant_ID r"
      by blast
    from l eqs have "(Owner_pk owner, Restaurant_pk x)
             \<in> set (map (\<lambda>l. (Link_Owner_ID l, Link_Restaurant_ID l)) (Restaurant_Owners db))"
      by force
    with x have "x \<in> set (owner_restaurants db owner)" by (simp add: owner_restaurants_def)
    with eqs(3) show "Restaurant_ID r \<in> set (map Restaurant_pk (owner_restaurants db owner))"
      by force
  qed
  have "set (filter ?P (Orders db)) = {r \<in> set (Orders db).
                 (\<exists>l \<in> set (Restaurant_Owners db). \<exists>x \<in> set (Restaurants db).
                     Link_Owner_ID l = Owner_pk owner \<and> Link_Restaurant_ID l = Restaurant_pk x
                     \<and> Restaurant_pk x = Restaurant_ID r)
                 \<and> Customer_Submitted r \<and> \<not> Completed_Status r}"
    unfolding set_filter auth by simp
  with same_set have members: "set ?orders = {r \<in> set (Orders db).
                 (\<exists>l \<in> set (Restaurant_Owners db). \<exists>x \<in> set (Restaurants db).
                     Link_Owner_ID l = Owner_pk owner \<and> Link_Restaurant_ID l = Restaurant_pk x
                     \<and> Restaurant_pk x = Restaurant_ID r)
                 \<and> Customer_Submitted r \<and> \<not> Completed_Status r}"
    by (rule trans)
  have again: "filter ?P (Orders db) = filter (\<lambda>r. r \<in> set ?orders) (Orders db)"
    unfolding same_set by (rule filter_cong) auto
  have counts: "mset ?orders = mset (filter (\<lambda>r. r \<in> set ?orders) (Orders db))"
    using perm again by simp
  show ?thesis using run members counts by (intro exI [of _ ?orders]) simp
qed

theorem pending_orders_exact_witness:
  "\<exists>orders. pending_orders index_scan 7 chain_db = Inr orders
     \<and> mset orders = mset (filter (\<lambda>r. r \<in> set orders) (Orders chain_db))
     \<and> orders = [an_order 2 1 20 21 False True 350, an_order 4 1 40 41 False True 350,
                  an_order 1 2 10 11 False True 500, an_order 3 2 30 31 False True 500]"
proof -
  have h: "objects_get (\<lambda>w. Owner_user w = 7) (Owners chain_db) = Inr \<lparr>Owner_pk = 1, Owner_user = 7\<rparr>"
    by (simp add: model_defs example_defs)
  have perm: "mset (index_scan rows) = mset rows" for rows
    by (simp add: index_scan_def)
  have run: "pending_orders index_scan 7 chain_db
     = Inr [an_order 2 1 20 21 False True 350, an_order 4 1 40 41 False True 350,
            an_order 1 2 10 11 False True 500, an_order 3 2 30 31 False True 500]"
    by (simp add: model_defs example_defs)
  from pending_orders_exact [OF h perm] obtain orders where
    got: "pending_orders index_scan 7 chain_db = Inr orders"
    and counts: "mset orders = mset (filter (\<lambda>r. r \<in> set orders) (Orders chain_db))"
    by blast
  from got run have "orders = [an_order 2 1 20 21 False True 350, an_order 4 1 40 41 False True 350,
            an_order 1 2 10 11 False True 500, an_order 3 2 30 31 False True 500]" by simp
  with got counts show ?thesis by blast
qed

end
